theory Spec2Isabelle
  imports Complex_Main
begin

section \<open>Python strings\<close>

text \<open>
  A Python \<open>str\<close> is a sequence of Unicode code points, so it is modelled as a list of
  code points (\<open>len\<close> is \<open>length\<close>, a slice is \<open>take\<close>/\<open>drop\<close>).  ASCII text is
  written through \<open>ascii\<close>; the CJK characters of the source are given by their code
  point.
\<close>

type_synonym pystr = "nat list"

definition ascii :: "string \<Rightarrow> pystr" where
  "ascii s = map of_char s"

text \<open>The characters for which \<open>str.isspace\<close> holds; \<open>str.strip()\<close> removes them at both ends.\<close>

definition isspace :: "nat \<Rightarrow> bool" where
  "isspace c \<longleftrightarrow>
     (9 \<le> c \<and> c \<le> 13) \<or> (28 \<le> c \<and> c \<le> 32) \<or> c = 133 \<or> c = 160 \<or> c = 5760 \<or>
     (8192 \<le> c \<and> c \<le> 8202) \<or> c = 8232 \<or> c = 8233 \<or> c = 8239 \<or> c = 8287 \<or> c = 12288"

definition strip :: "pystr \<Rightarrow> pystr" where
  "strip s = rev (dropWhile isspace (rev (dropWhile isspace s)))"

text \<open>\<open>s.replace(c, '')\<close> for a single character \<open>c\<close>.\<close>

definition remove_char :: "nat \<Rightarrow> pystr \<Rightarrow> pystr" where
  "remove_char c s = filter (\<lambda>x. x \<noteq> c) s"

section \<open>bank\_payment.py: the data\<close>

text \<open>
  Amounts are Python floats in the source.  An amount is modelled as the real number the
  float stands for, and the definitions of this part compute with exact arithmetic: they
  describe the code wherever its float operations do not round.  The float operations
  of the one-credit case are made explicit in a later section.
\<close>

text \<open>One row of the ledger CSV, as \<open>csv.DictReader\<close> yields it (every field a string).\<close>

record row =
  month :: pystr
  day :: pystr
  voucher_number :: pystr
  entry_number :: pystr
  account_name :: pystr
  summary :: pystr
  debit_text :: pystr
  credit_text :: pystr
  auxiliary_text :: pystr

text \<open>
  A row that \<open>_process_voucher_group\<close> has put on one side: the row together with the
  amount stored under the key of its side (the debit amount of a debit leg, the credit
  amount of a credit leg).
\<close>

record leg =
  leg_row :: row
  leg_amount :: real

datatype voucher_type =
  OneToOne
  | OneCreditManyDebit
  | ManyCreditOneDebit
  | ManyCreditManyDebit
  | Invalid

datatype error =
  Unbalanced real real
  | UnknownVoucherType
  | IndexError
  | ClassifierError

text \<open>
  What the tracker takes from outside: Python's \<open>float()\<close> (\<open>None\<close> where it raises
  \<open>ValueError\<close>) and the two calls of the LLM classifier, which either return a
  category or raise.
\<close>

record env =
  py_float :: "pystr \<Rightarrow> real option"
  classify_payment_purpose :: "pystr \<Rightarrow> pystr \<Rightarrow> pystr \<Rightarrow> error + pystr"
  classify_cash_flow_item :: "pystr \<Rightarrow> pystr \<Rightarrow> pystr \<Rightarrow> error + pystr"

record debit_entry =
  entry_account :: pystr
  entry_amount :: real
  entry_summary :: pystr
  entry_department :: pystr
  entry_customer :: pystr
  entry_person :: pystr
  entry_purpose :: pystr
  entry_cash_flow :: pystr

record credit_info =
  credit_account :: pystr
  credit_amount :: real
  credit_summary :: pystr
  credit_bank_account :: pystr

record check_info =
  debit_total :: real
  credit_total :: real
  balanced :: bool

record payment_record =
  payment_id :: pystr
  source_voucher :: pystr
  credit_side :: credit_info
  debit_side :: "debit_entry list"
  topology :: voucher_type
  sequence_index :: "nat option"
  total_in_voucher :: "nat option"
  check :: check_info

section \<open>bank\_payment.py: cleaning amounts and extracting fields\<close>

definition clean_amount :: "env \<Rightarrow> pystr \<Rightarrow> real" where
  "clean_amount E amount_str =
     (if amount_str = [] \<or> strip amount_str = [] then 0
      else case py_float E (strip (remove_char 34 (remove_char 44 amount_str))) of
             Some v \<Rightarrow> v
           | None \<Rightarrow> 0)"

definition OPEN :: nat where "OPEN = 12304"
definition CLOSE :: nat where "CLOSE = 12305"
definition COLON :: nat where "COLON = 65306"

text \<open>
  \<open>re.search('OPEN key COLON ([^CLOSE]+) CLOSE', text)\<close>: the leftmost position where the
  prefix stands, followed by a non-empty run without a closing bracket and then a closing
  bracket; the group is that run.
\<close>

definition match_at :: "pystr \<Rightarrow> pystr \<Rightarrow> pystr option" where
  "match_at key t =
     (let prefix = OPEN # key @ [COLON] in
      if take (length prefix) t = prefix then
        (let rest = drop (length prefix) t;
             v = takeWhile (\<lambda>c. c \<noteq> CLOSE) rest;
             after = dropWhile (\<lambda>c. c \<noteq> CLOSE) rest
         in if v \<noteq> [] \<and> after \<noteq> [] then Some v else None)
      else None)"

fun re_search :: "pystr \<Rightarrow> pystr \<Rightarrow> pystr option" where
  "re_search key [] = None"
| "re_search key (c # cs) =
     (case match_at key (c # cs) of
        Some v \<Rightarrow> Some v
      | None \<Rightarrow> re_search key cs)"

definition extract_bank_account :: "pystr \<Rightarrow> pystr" where
  "extract_bank_account auxiliary_item =
     (if auxiliary_item = [] then []
      else case re_search [38134, 34892, 36134, 25143] auxiliary_item of
             Some v \<Rightarrow> v | None \<Rightarrow> [])"

definition extract_department :: "pystr \<Rightarrow> pystr" where
  "extract_department auxiliary_item =
     (if auxiliary_item = [] then []
      else case re_search [37096, 38376] auxiliary_item of
             Some v \<Rightarrow> v
           | None \<Rightarrow> (case re_search [32489, 25928, 37096, 38376] auxiliary_item of
                        Some v \<Rightarrow> v | None \<Rightarrow> []))"

definition extract_customer :: "pystr \<Rightarrow> pystr" where
  "extract_customer auxiliary_item =
     (if auxiliary_item = [] then []
      else case re_search [23458, 21830] auxiliary_item of
             Some v \<Rightarrow> v | None \<Rightarrow> [])"

definition extract_person :: "pystr \<Rightarrow> pystr" where
  "extract_person auxiliary_item =
     (if auxiliary_item = [] then []
      else case re_search [20154, 21592, 26723, 26696] auxiliary_item of
             Some v \<Rightarrow> v | None \<Rightarrow> [])"

definition create_debit_entry :: "env \<Rightarrow> leg \<Rightarrow> real \<Rightarrow> error + debit_entry" where
  "create_debit_entry E debit_record amount =
     (let r = leg_row debit_record in
      case classify_payment_purpose E (summary r) (account_name r) (auxiliary_text r) of
        Inl e \<Rightarrow> Inl e
      | Inr purpose \<Rightarrow>
          (case classify_cash_flow_item E (summary r) (account_name r) (auxiliary_text r) of
             Inl e \<Rightarrow> Inl e
           | Inr cash_flow \<Rightarrow>
               Inr \<lparr>entry_account = account_name r,
                    entry_amount = amount,
                    entry_summary = summary r,
                    entry_department = extract_department (auxiliary_text r),
                    entry_customer = extract_customer (auxiliary_text r),
                    entry_person = extract_person (auxiliary_text r),
                    entry_purpose = purpose,
                    entry_cash_flow = cash_flow\<rparr>))"

text \<open>The two f-strings that name a payment and its voucher.\<close>

definition voucher_label :: "row \<Rightarrow> pystr" where
  "voucher_label r = month r @ [26376] @ day r @ [26085, 45] @ voucher_number r"

definition payment_label :: "row \<Rightarrow> pystr" where
  "payment_label r = voucher_label r @ [45, 20998, 24405] @ entry_number r"

section \<open>bank\_payment.py: classification\<close>

definition determine_voucher_type :: "leg list \<Rightarrow> leg list \<Rightarrow> voucher_type" where
  "determine_voucher_type debit_records credit_records =
     (let debit_count = length debit_records; credit_count = length credit_records in
      if debit_count = 1 \<and> credit_count = 1 then OneToOne
      else if debit_count = 1 \<and> credit_count > 1 then ManyCreditOneDebit
      else if debit_count > 1 \<and> credit_count = 1 then OneCreditManyDebit
      else if debit_count > 1 \<and> credit_count > 1 then ManyCreditManyDebit
      else Invalid)"

section \<open>bank\_payment.py: allocation\<close>

text \<open>The loop of \<open>_process_voucher_group\<close> that puts each row on its side.\<close>

fun split_rows :: "env \<Rightarrow> row list \<Rightarrow> leg list \<Rightarrow> leg list \<Rightarrow> leg list \<times> leg list" where
  "split_rows E [] debit_records credit_records = (debit_records, credit_records)"
| "split_rows E (record # rest) debit_records credit_records =
     (let debit_amount = clean_amount E (debit_text record);
          credit_amount = clean_amount E (credit_text record)
      in if debit_amount > 0 then
           split_rows E rest
             (debit_records @ [\<lparr>leg_row = record, leg_amount = debit_amount\<rparr>]) credit_records
         else if credit_amount > 0 then
           split_rows E rest
             debit_records (credit_records @ [\<lparr>leg_row = record, leg_amount = credit_amount\<rparr>])
         else split_rows E rest debit_records credit_records)"

definition make_credit_info :: "leg \<Rightarrow> real \<Rightarrow> credit_info" where
  "make_credit_info credit_record amount =
     \<lparr>credit_account = account_name (leg_row credit_record),
      credit_amount = amount,
      credit_summary = summary (leg_row credit_record),
      credit_bank_account = extract_bank_account (auxiliary_text (leg_row credit_record))\<rparr>"

text \<open>The balance flag of a record: balanced when the two totals differ by less than 0.01.\<close>

definition make_check :: "real \<Rightarrow> real \<Rightarrow> check_info" where
  "make_check debit_sum credit_sum =
     \<lparr>debit_total = debit_sum, credit_total = credit_sum,
      balanced = (\<bar>debit_sum - credit_sum\<bar> < 1 / 100)\<rparr>"

definition sum_entries :: "debit_entry list \<Rightarrow> real" where
  "sum_entries es = sum_list (map entry_amount es)"

definition process_one_credit_one_debit ::
    "env \<Rightarrow> leg list \<Rightarrow> leg list \<Rightarrow> error + payment_record list" where
  "process_one_credit_one_debit E debit_records credit_records =
     (case credit_records of
        [] \<Rightarrow> Inl IndexError
      | credit_record # _ \<Rightarrow>
          (case debit_records of
             [] \<Rightarrow> Inl IndexError
           | debit_record # _ \<Rightarrow>
               (case create_debit_entry E debit_record (leg_amount debit_record) of
                  Inl e \<Rightarrow> Inl e
                | Inr debit_entry \<Rightarrow>
                    Inr [\<lparr>payment_id = payment_label (leg_row credit_record),
                          source_voucher = voucher_label (leg_row credit_record),
                          credit_side = make_credit_info credit_record (leg_amount credit_record),
                          debit_side = [debit_entry],
                          topology = OneToOne,
                          sequence_index = None,
                          total_in_voucher = None,
                          check = make_check (entry_amount debit_entry)
                                    (leg_amount credit_record)\<rparr>])))"

text \<open>
  The loop of \<open>_process_one_credit_multi_debit\<close>.  The leg in hand is the last one
  (\<open>i == len(debit_records) - 1\<close>) exactly when no leg follows it.
\<close>

fun allocate_debits ::
    "env \<Rightarrow> leg list \<Rightarrow> real \<Rightarrow> debit_entry list \<Rightarrow> error + debit_entry list" where
  "allocate_debits E [] remaining_credit allocated_debits = Inr allocated_debits"
| "allocate_debits E (debit_record # rest) remaining_credit allocated_debits =
     (let debit_amount = leg_amount debit_record;
          allocated_amount =
            (if rest = [] then remaining_credit else min debit_amount remaining_credit)
      in if allocated_amount > 0 then
           (case create_debit_entry E debit_record allocated_amount of
              Inl e \<Rightarrow> Inl e
            | Inr debit_entry \<Rightarrow>
                allocate_debits E rest (remaining_credit - allocated_amount)
                  (allocated_debits @ [debit_entry]))
         else allocate_debits E rest remaining_credit allocated_debits)"

definition process_one_credit_multi_debit ::
    "env \<Rightarrow> leg list \<Rightarrow> leg list \<Rightarrow> error + payment_record list" where
  "process_one_credit_multi_debit E debit_records credit_records =
     (case credit_records of
        [] \<Rightarrow> Inl IndexError
      | credit_record # _ \<Rightarrow>
          (let credit_amount = leg_amount credit_record in
           case allocate_debits E debit_records credit_amount [] of
             Inl e \<Rightarrow> Inl e
           | Inr allocated_debits \<Rightarrow>
               Inr [\<lparr>payment_id = payment_label (leg_row credit_record),
                     source_voucher = voucher_label (leg_row credit_record),
                     credit_side = make_credit_info credit_record credit_amount,
                     debit_side = allocated_debits,
                     topology = OneCreditManyDebit,
                     sequence_index = None,
                     total_in_voucher = None,
                     check = make_check (sum_entries allocated_debits) credit_amount\<rparr>]))"

text \<open>
  The loop of \<open>_process_multi_credit_one_debit\<close>; \<open>i\<close> is the index of the credit leg
  in hand and \<open>n\<close> the number of credit legs.
\<close>

fun allocate_credits ::
    "env \<Rightarrow> leg \<Rightarrow> nat \<Rightarrow> nat \<Rightarrow> leg list \<Rightarrow> real \<Rightarrow> payment_record list
       \<Rightarrow> error + payment_record list" where
  "allocate_credits E debit_record n i [] remaining_debit payment_records = Inr payment_records"
| "allocate_credits E debit_record n i (credit_record # rest) remaining_debit payment_records =
     (let credit_amount = leg_amount credit_record;
          allocated_amount =
            (if rest = [] then remaining_debit else min credit_amount remaining_debit)
      in if allocated_amount > 0 then
           (case create_debit_entry E debit_record allocated_amount of
              Inl e \<Rightarrow> Inl e
            | Inr debit_entry \<Rightarrow>
                allocate_credits E debit_record n (i + 1) rest
                  (remaining_debit - allocated_amount)
                  (payment_records @
                     [\<lparr>payment_id = payment_label (leg_row credit_record),
                       source_voucher = voucher_label (leg_row credit_record),
                       credit_side = make_credit_info credit_record allocated_amount,
                       debit_side = [debit_entry],
                       topology = ManyCreditOneDebit,
                       sequence_index = Some (i + 1),
                       total_in_voucher = Some n,
                       check = make_check (entry_amount debit_entry) allocated_amount\<rparr>]))
         else allocate_credits E debit_record n (i + 1) rest remaining_debit payment_records)"

definition process_multi_credit_one_debit ::
    "env \<Rightarrow> leg list \<Rightarrow> leg list \<Rightarrow> error + payment_record list" where
  "process_multi_credit_one_debit E debit_records credit_records =
     (case debit_records of
        [] \<Rightarrow> Inl IndexError
      | debit_record # _ \<Rightarrow>
          allocate_credits E debit_record (length credit_records) 0 credit_records
            (leg_amount debit_record) [])"

text \<open>
  The inner loop of \<open>_process_multi_credit_multi_debit\<close>: one credit leg consumes the
  pool \<open>remaining_debits\<close>.  It returns the fragments of this credit leg and
  \<open>temp_debits\<close>, the pool of the next credit leg.  The first equation's second case is
  the \<open>break\<close>.
\<close>

fun consume_pool ::
    "env \<Rightarrow> leg list \<Rightarrow> real \<Rightarrow> debit_entry list \<Rightarrow> leg list
       \<Rightarrow> error + (debit_entry list \<times> leg list)" where
  "consume_pool E [] remaining_credit allocated_debits temp_debits =
     Inr (allocated_debits, temp_debits)"
| "consume_pool E (debit_record # rest) remaining_credit allocated_debits temp_debits =
     (if remaining_credit \<le> 0 then Inr (allocated_debits, temp_debits)
      else
        (let debit_amount = leg_amount debit_record;
             allocated_amount =
               (if rest = [] then remaining_credit else min debit_amount remaining_credit)
         in if allocated_amount > 0 then
              (case create_debit_entry E debit_record allocated_amount of
                 Inl e \<Rightarrow> Inl e
               | Inr debit_entry \<Rightarrow>
                   (let updated_debit =
                          debit_record\<lparr>leg_amount := debit_amount - allocated_amount\<rparr>
                    in consume_pool E rest (remaining_credit - allocated_amount)
                         (allocated_debits @ [debit_entry])
                         (if leg_amount updated_debit > 1 / 100
                          then temp_debits @ [updated_debit] else temp_debits)))
            else consume_pool E rest (remaining_credit - allocated_amount)
                   allocated_debits temp_debits))"

text \<open>The outer loop, over the credit legs; \<open>n\<close> is the number of credit legs.\<close>

fun allocate_pool ::
    "env \<Rightarrow> nat \<Rightarrow> leg list \<Rightarrow> leg list \<Rightarrow> payment_record list
       \<Rightarrow> error + payment_record list" where
  "allocate_pool E n [] remaining_debits payment_records = Inr payment_records"
| "allocate_pool E n (credit_record # rest) remaining_debits payment_records =
     (let credit_amount = leg_amount credit_record in
      case consume_pool E remaining_debits credit_amount [] [] of
        Inl e \<Rightarrow> Inl e
      | Inr (allocated_debits, temp_debits) \<Rightarrow>
          allocate_pool E n rest temp_debits
            (payment_records @
               [\<lparr>payment_id = payment_label (leg_row credit_record),
                 source_voucher = voucher_label (leg_row credit_record),
                 credit_side = make_credit_info credit_record credit_amount,
                 debit_side = allocated_debits,
                 topology = ManyCreditManyDebit,
                 sequence_index = Some (length payment_records + 1),
                 total_in_voucher = Some n,
                 check = make_check (sum_entries allocated_debits) credit_amount\<rparr>]))"

definition total_amount :: "leg list \<Rightarrow> real" where
  "total_amount legs = sum_list (map leg_amount legs)"

definition process_multi_credit_multi_debit ::
    "env \<Rightarrow> leg list \<Rightarrow> leg list \<Rightarrow> error + payment_record list" where
  "process_multi_credit_multi_debit E debit_records credit_records =
     (let total_credit = total_amount credit_records;
          total_debit = total_amount debit_records
      in if \<bar>total_credit - total_debit\<bar> > 1 / 100 then Inl (Unbalanced total_credit total_debit)
         else allocate_pool E (length credit_records) credit_records debit_records [])"

text \<open>The dispatch of \<open>_process_voucher_group\<close>, once the rows are on their sides.\<close>

definition process_legs :: "env \<Rightarrow> leg list \<Rightarrow> leg list \<Rightarrow> error + payment_record list" where
  "process_legs E debit_records credit_records =
     (case determine_voucher_type debit_records credit_records of
        OneToOne \<Rightarrow> process_one_credit_one_debit E debit_records credit_records
      | OneCreditManyDebit \<Rightarrow> process_one_credit_multi_debit E debit_records credit_records
      | ManyCreditOneDebit \<Rightarrow> process_multi_credit_one_debit E debit_records credit_records
      | ManyCreditManyDebit \<Rightarrow> process_multi_credit_multi_debit E debit_records credit_records
      | Invalid \<Rightarrow> Inl UnknownVoucherType)"

definition process_voucher_group :: "env \<Rightarrow> row list \<Rightarrow> error + payment_record list" where
  "process_voucher_group E voucher_records =
     (case split_rows E voucher_records [] [] of
        (debit_records, credit_records) \<Rightarrow> process_legs E debit_records credit_records)"

text \<open>The sum of all debit fragments of a list of payment records.\<close>

definition fragments_total :: "payment_record list \<Rightarrow> real" where
  "fragments_total rs = sum_list (map (\<lambda>r. sum_entries (debit_side r)) rs)"

section \<open>The allocation rule in the words of the specification\<close>



section \<open>A concrete environment for examples\<close>

text \<open>
  Python's \<open>float()\<close> on a plain decimal literal (an optional sign, digits, at most one
  point); every other string is \<open>None\<close> here.  The classifier of the examples answers
  with the fallback category of the source and never raises.
\<close>

definition is_digit :: "nat \<Rightarrow> bool" where
  "is_digit c \<longleftrightarrow> 48 \<le> c \<and> c \<le> 57"

definition digits_value :: "pystr \<Rightarrow> nat" where
  "digits_value ds = foldl (\<lambda>acc c. 10 * acc + (c - 48)) 0 ds"

definition decimal_float :: "pystr \<Rightarrow> real option" where
  "decimal_float s =
     (let negative = (take 1 s = [45]);
          body = (if take 1 s = [45] \<or> take 1 s = [43] then drop 1 s else s);
          int_part = takeWhile (\<lambda>c. c \<noteq> 46) body;
          frac_part = drop 1 (dropWhile (\<lambda>c. c \<noteq> 46) body)
      in if (int_part = [] \<and> frac_part = []) \<or> \<not> list_all is_digit int_part
            \<or> \<not> list_all is_digit frac_part
         then None
         else Some ((if negative then - 1 else 1) *
                (real (digits_value int_part)
                 + real (digits_value frac_part) / 10 ^ length frac_part)))"

definition example_env :: env where
  "example_env =
     \<lparr>py_float = decimal_float,
      classify_payment_purpose = (\<lambda>s a x. Inr [20854, 20182]),
      classify_cash_flow_item = (\<lambda>s a x. Inr [20854, 20182])\<rparr>"

text \<open>A row of the examples: entry number, account, debit text, credit text.\<close>

definition example_row :: "string \<Rightarrow> string \<Rightarrow> string \<Rightarrow> string \<Rightarrow> row" where
  "example_row e a d c =
     \<lparr>month = ascii ''1'', day = ascii ''15'', voucher_number = ascii ''V7'',
      entry_number = ascii e, account_name = ascii a, summary = ascii ''pay'',
      debit_text = ascii d, credit_text = ascii c, auxiliary_text = []\<rparr>"

definition example_leg :: "string \<Rightarrow> string \<Rightarrow> real \<Rightarrow> leg" where
  "example_leg e a x = \<lparr>leg_row = example_row e a [] [], leg_amount = x\<rparr>"

text \<open>
  A balanced voucher with two debit rows and two credit rows of 50 each, and the same
  voucher with a row in between whose amount fields hold no positive amount.
\<close>

definition two_by_two :: "row list" where
  "two_by_two =
     [example_row ''1'' ''D1'' ''50'' [], example_row ''2'' ''D2'' ''50'' [],
      example_row ''3'' ''C1'' [] ''50'', example_row ''4'' ''C2'' [] ''50'']"

definition two_by_two_with_blank :: "row list" where
  "two_by_two_with_blank =
     [example_row ''1'' ''D1'' ''50'' [], example_row ''2'' ''D2'' ''50'' [],
      example_row ''5'' ''Z'' ''abc'' ''0'',
      example_row ''3'' ''C1'' [] ''50'', example_row ''4'' ''C2'' [] ''50'']"

section \<open>parser.py: the auxiliary-item parser\<close>

text \<open>
  The alias table \<open>type_mapping\<close>, in the order of the dictionary literal (a Python
  dictionary iterates in insertion order).
\<close>

definition type_mapping :: "(pystr \<times> pystr) list" where
  "type_mapping =
     [([23458, 21830], ascii ''supplier_customer''),
      ([20379, 24212, 21830], ascii ''supplier''),
      ([23458, 25143], ascii ''customer''),
      ([39033, 30446], ascii ''project''),
      ([37096, 38376], ascii ''department''),
      ([38134, 34892, 36134, 25143], ascii ''bank_account''),
      ([20154, 21592, 26723, 26696], ascii ''employee''),
      ([21592, 24037], ascii ''employee''),
      ([20154, 21592], ascii ''employee''),
      ([27454, 39033, 21517, 31216], ascii ''payment_item''),
      ([32489, 25928, 37096, 38376], ascii ''performance_dept''),
      ([32489, 25928, 37096, 38376, 104, 108], ascii ''performance_dept_hl''),
      ([24448, 26469, 21333, 20301], ascii ''business_partner''),
      ([21333, 20301], ascii ''unit''),
      ([32467, 31639, 26041, 24335], ascii ''settlement_method''),
      ([29616, 37329, 27969, 37327, 39033, 30446], ascii ''cash_flow_item''),
      ([19994, 21153, 21592], ascii ''salesman''),
      ([23384, 36135], ascii ''inventory''),
      ([33258, 23450, 20041, 39033], ascii ''custom_item''),
      ([25176, 22806, 27969, 27700, 21495], ascii ''external_flow_number''),
      ([22806, 37096, 27969, 27700, 21495], ascii ''external_flow_number''),
      ([27969, 27700, 21495], ascii ''flow_number''),
      ([19994, 21153, 31867, 21035], ascii ''business_category''),
      ([29289, 19994, 22320, 22336], ascii ''property_address''),
      ([38134, 34892, 26723, 26696], ascii ''bank_archive''),
      ([21512, 21516, 32534, 21495], ascii ''contract_number''),
      ([21457, 31080, 21495, 30721], ascii ''invoice_number''),
      ([25910, 27454, 21333, 20301], ascii ''receiving_unit''),
      ([20184, 27454, 21333, 20301], ascii ''paying_unit''),
      ([26045, 24037, 32534, 21495], ascii ''construction_number''),
      ([39033, 30446, 32534, 21495], ascii ''project_number''),
      ([26723, 26696, 32534, 21495], ascii ''archive_number'')]"

text \<open>The loop of \<open>__init__\<close> that builds \<open>reverse_mapping\<close>.\<close>

definition reverse_step :: "(pystr \<rightharpoonup> pystr) \<Rightarrow> pystr \<times> pystr \<Rightarrow> (pystr \<rightharpoonup> pystr)" where
  "reverse_step rm kv =
     (case kv of (k, v) \<Rightarrow>
        if v = ascii ''external_flow_number'' \<and> k = [25176, 22806, 27969, 27700, 21495]
        then rm(v \<mapsto> k)
        else if rm v = None then rm(v \<mapsto> k)
        else rm)"

definition reverse_mapping :: "pystr \<rightharpoonup> pystr" where
  "reverse_mapping = foldl reverse_step Map.empty type_mapping"

text \<open>Python's \<open>a in b\<close> on strings: \<open>a\<close> occurs in \<open>b\<close> as a contiguous run.\<close>

fun occurs_in :: "pystr \<Rightarrow> pystr \<Rightarrow> bool" where
  "occurs_in a [] = (a = [])"
| "occurs_in a (c # cs) = (take (length a) (c # cs) = a \<or> occurs_in a cs)"

text \<open>
  \<open>_standardize_type\<close>.  Python's \<open>str.lower\<close> is the parameter \<open>lower\<close>; the last
  line replaces every space (32) by an underscore (95).
\<close>

definition standardize_type :: "(pystr \<Rightarrow> pystr) \<Rightarrow> pystr \<Rightarrow> pystr" where
  "standardize_type lower raw =
     (case map_of type_mapping raw of
        Some v \<Rightarrow> v
      | None \<Rightarrow>
          (case find (\<lambda>kv. occurs_in (fst kv) raw \<or> occurs_in raw (fst kv)) type_mapping of
             Some kv \<Rightarrow> snd kv
           | None \<Rightarrow> map (\<lambda>c. if c = 32 then 95 else c) (lower raw)))"

text \<open>Slices: \<open>s[:k]\<close> for an integer \<open>k\<close> (a negative \<open>k\<close> counts from the end),
  \<open>s[a:b]\<close> for indices that are not negative, and \<open>s[-k:]\<close>.\<close>

definition slice_to :: "int \<Rightarrow> pystr \<Rightarrow> pystr" where
  "slice_to k s = (if 0 \<le> k then take (nat k) s else take (length s - nat (- k)) s)"

definition slice :: "nat \<Rightarrow> nat \<Rightarrow> pystr \<Rightarrow> pystr" where
  "slice a b s = drop a (take b s)"

definition slice_last :: "nat \<Rightarrow> pystr \<Rightarrow> pystr" where
  "slice_last k s = drop (length s - k) s"

definition special_chars :: "nat list" where
  "special_chars = [OPEN, CLOSE, 58, COLON]"

text \<open>
  The warning of a truncated value.  The source formats it into one message; the model
  keeps the parts the message is made of: the type, the two lengths and the last 50
  characters of the truncated value.
\<close>

record warning =
  warned_type :: pystr
  original_length :: nat
  truncated_length :: nat
  truncated_tail :: pystr

text \<open>The backward search of \<open>_validate_and_truncate_value\<close> for a character that is not special.\<close>

function walk_back :: "pystr \<Rightarrow> int \<Rightarrow> int" where
  "walk_back t i =
     (if 0 \<le> i \<and> t ! nat i \<in> set special_chars then walk_back t (i - 1) else i)"
  by pat_completeness auto
termination
  by (relation "measure (\<lambda>(t, i). nat (i + 1))") auto

declare walk_back.simps [simp del]

definition validate_and_truncate_value ::
    "int \<Rightarrow> pystr \<Rightarrow> pystr \<Rightarrow> pystr \<times> bool \<times> warning option" where
  "validate_and_truncate_value max_value_length v item_type =
     (if v = [] then (v, False, None)
      else if int (length v) \<le> max_value_length then (v, False, None)
      else
        (let cut = slice_to max_value_length v;
             truncated_value =
               (if cut \<noteq> [] \<and> last cut \<in> set special_chars then
                  (let last_valid_index = walk_back cut (int (length cut) - 2) in
                   if 0 \<le> last_valid_index then slice_to (last_valid_index + 1) cut
                   else cut)
                else cut)
         in (truncated_value, True,
             Some \<lparr>warned_type = item_type,
                   original_length = length v,
                   truncated_length = length truncated_value,
                   truncated_tail = slice_last 50 truncated_value\<rparr>)))"

text \<open>One parsed item, the dictionary \<open>item_data\<close>; \<open>value_warning\<close> is present only
  for a truncated value.\<close>

record item =
  raw_type :: pystr
  item_type :: pystr
  item_value :: pystr
  display_type :: pystr
  value_warning :: "warning option"

text \<open>
  The search for the colon: from index \<open>i\<close>, the position of the first full-width colon
  (\<open>None\<close> for the source's \<open>-1\<close>) and the index where the loop stops.
\<close>

function find_colon :: "pystr \<Rightarrow> nat \<Rightarrow> nat option \<times> nat" where
  "find_colon text i =
     (if i < length text then
        (if text ! i = COLON then (Some i, i + 1) else find_colon text (i + 1))
      else (None, i))"
  by pat_completeness auto
termination
  by (relation "measure (\<lambda>(text, i). length text - i)") auto

declare find_colon.simps [simp del]

text \<open>The search for the matching bracket: the final depth and the index where the loop stops.\<close>

function match_bracket :: "pystr \<Rightarrow> nat \<Rightarrow> int \<Rightarrow> int \<times> nat" where
  "match_bracket text i bracket_count =
     (if i < length text \<and> 0 < bracket_count then
        match_bracket text (i + 1)
          (if text ! i = OPEN then bracket_count + 1
           else if text ! i = CLOSE then bracket_count - 1
           else bracket_count)
      else (bracket_count, i))"
  by pat_completeness auto
termination
  by (relation "measure (\<lambda>(text, i, c). length text - i)") auto

declare match_bracket.simps [simp del]

definition make_item :: "(pystr \<Rightarrow> pystr) \<Rightarrow> int \<Rightarrow> pystr \<Rightarrow> pystr \<Rightarrow> item" where
  "make_item lower max_value_length raw v =
     (let standardized_type = standardize_type lower raw in
      case validate_and_truncate_value max_value_length v standardized_type of
        (validated_value, was_truncated, warning_msg) \<Rightarrow>
          \<lparr>raw_type = raw,
           item_type = standardized_type,
           item_value = validated_value,
           display_type =
             (case reverse_mapping standardized_type of Some k \<Rightarrow> k | None \<Rightarrow> raw),
           value_warning = (if was_truncated then warning_msg else None)\<rparr>)"

text \<open>The main loop of \<open>_parse_auxiliary_manual\<close>; the two \<open>break\<close>s return the items
  found so far.\<close>

function parse_loop ::
    "(pystr \<Rightarrow> pystr) \<Rightarrow> int \<Rightarrow> pystr \<Rightarrow> nat \<Rightarrow> item list \<Rightarrow> item list" where
  "parse_loop lower max_value_length text i items =
     (if i < length text then
        (if text ! i = OPEN then
           (case find_colon text (i + 1) of
              (None, _) \<Rightarrow> items
            | (Some colon_pos, i1) \<Rightarrow>
                (case match_bracket text i1 1 of
                   (bracket_count, i2) \<Rightarrow>
                     if bracket_count = 0 then
                       parse_loop lower max_value_length text i2
                         (items @
                            [make_item lower max_value_length
                               (strip (slice (i + 1) colon_pos text))
                               (strip (slice (colon_pos + 1) (i2 - 1) text))])
                     else items))
         else parse_loop lower max_value_length text (i + 1) items)
      else items)"
  by pat_completeness auto
termination
proof (relation "measure (\<lambda>(lower, m, text, i, items). length text - i)")
  have colon: "i \<le> snd (find_colon t i)" for t i
    by (induction t i rule: find_colon.induct) (subst find_colon.simps, auto)
  have bracket: "i \<le> snd (match_bracket t i c)" for t i c
    by (induction t i c rule: match_bracket.induct) (subst match_bracket.simps, auto)
  fix lower :: "pystr \<Rightarrow> pystr" and max_value_length :: int and t :: pystr and i :: nat
    and items :: "item list" and x y x2 x1 y1
  assume "i < length t" "(x, y) = find_colon t (i + 1)" "(x1, y1) = match_bracket t y 1"
  then have "i + 1 \<le> y" "y \<le> y1"
    using colon [of "i + 1" t] bracket [of y t 1] by (metis snd_conv)+
  with \<open>i < length t\<close>
  show "((lower, max_value_length, t, y1, items @
            [make_item lower max_value_length (strip (slice (i + 1) x2 t))
               (strip (slice (x2 + 1) (y1 - 1) t))]),
         lower, max_value_length, t, i, items)
        \<in> measure (\<lambda>(lower, m, text, i, items). length text - i)"
    by simp
qed auto

declare parse_loop.simps [simp del]

definition parse_auxiliary_manual :: "(pystr \<Rightarrow> pystr) \<Rightarrow> int \<Rightarrow> pystr \<Rightarrow> item list" where
  "parse_auxiliary_manual lower max_value_length text = parse_loop lower max_value_length text 0 []"

text \<open>\<open>parse_auxiliary_info\<close>; \<open>None\<close> is a missing text (\<open>None\<close> or NaN).\<close>

definition parse_auxiliary_info ::
    "(pystr \<Rightarrow> pystr) \<Rightarrow> int \<Rightarrow> pystr option \<Rightarrow> item list" where
  "parse_auxiliary_info lower max_value_length text =
     (case text of
        None \<Rightarrow> []
      | Some t \<Rightarrow>
          if t = [] \<or> strip t = [] then []
          else parse_auxiliary_manual lower max_value_length (strip t))"

text \<open>\<open>str.lower\<close> on ASCII text, for the examples.\<close>

definition ascii_lower :: "pystr \<Rightarrow> pystr" where
  "ascii_lower s = map (\<lambda>c. if 65 \<le> c \<and> c \<le> 90 then c + 32 else c) s"

text \<open>
  The text of the nested-bracket example: an opening bracket, the five characters of the
  type, the full-width colon, a value that holds the bracketed numbers 2022 and 0017,
  and the closing bracket.
\<close>

definition nested_example :: pystr where
  "nested_example =
     [12304, 25176, 22806, 27969, 27700, 21495, 65306, 31908, 21644, 31435, 12304, 50, 48, 50,
      50, 12305, 26045, 24037, 12304, 48, 48, 49, 55, 12305, 21495, 12305]"

definition nested_example_value :: pystr where
  "nested_example_value =
     [31908, 21644, 31435, 12304, 50, 48, 50, 50, 12305, 26045, 24037, 12304, 48, 48, 49, 55,
      12305, 21495]"







section \<open>bank\_payment.py: the one-credit case with its float operations\<close>

text \<open>
  The definitions of the allocation above compute with exact amounts; they say what the
  code computes whenever none of its float operations rounds, as for whole amounts.  In
  this section the float subtraction and the float addition of
  \<open>_process_one_credit_multi_debit\<close> are explicit: they are the two operations of a
  record \<open>float_ops\<close>, and an amount is the real number a float stands for.
  Comparisons, \<open>min\<close> and \<open>abs\<close> of floats are exact and stay as they are.
\<close>

record float_ops =
  fsub :: "real \<Rightarrow> real \<Rightarrow> real"
  fadd :: "real \<Rightarrow> real \<Rightarrow> real"


text \<open>The loop of \<open>_process_one_credit_multi_debit\<close>, with
  \<open>remaining_credit -= allocated_amount\<close> as a float subtraction.\<close>

fun allocate_debits_float ::
    "float_ops \<Rightarrow> env \<Rightarrow> leg list \<Rightarrow> real \<Rightarrow> debit_entry list \<Rightarrow> error + debit_entry list" where
  "allocate_debits_float F E [] remaining_credit allocated_debits = Inr allocated_debits"
| "allocate_debits_float F E (debit_record # rest) remaining_credit allocated_debits =
     (let debit_amount = leg_amount debit_record;
          allocated_amount =
            (if rest = [] then remaining_credit else min debit_amount remaining_credit)
      in if allocated_amount > 0 then
           (case create_debit_entry E debit_record allocated_amount of
              Inl e \<Rightarrow> Inl e
            | Inr debit_entry \<Rightarrow>
                allocate_debits_float F E rest (fsub F remaining_credit allocated_amount)
                  (allocated_debits @ [debit_entry]))
         else allocate_debits_float F E rest remaining_credit allocated_debits)"






section \<open>Float operations for the examples\<close>








section \<open>Classification\<close>

text \<open>
  Claim C5.  The voucher type is a function of the two leg counts alone: \<open>Invalid\<close>
  when there is no debit leg or no credit leg, \<open>OneToOne\<close> for one leg on each side,
  \<open>OneCreditManyDebit\<close> for one credit leg and several debit legs,
  \<open>ManyCreditOneDebit\<close> for several credit legs and one debit leg, and
  \<open>ManyCreditManyDebit\<close> for several legs on both sides.  The function is total and
  returns nothing else.
\<close>

theorem determine_voucher_type_by_counts:
  "determine_voucher_type debit_records credit_records =
     (if length debit_records = 0 \<or> length credit_records = 0 then Invalid
      else if length debit_records = 1 \<and> length credit_records = 1 then OneToOne
      else if length credit_records = 1 then OneCreditManyDebit
      else if length debit_records = 1 then ManyCreditOneDebit
      else ManyCreditManyDebit)"
proof -
  define d where "d = length debit_records"
  define c where "c = length credit_records"
  have "(if d = 1 \<and> c = 1 then OneToOne
         else if d = 1 \<and> c > 1 then ManyCreditOneDebit
         else if d > 1 \<and> c = 1 then OneCreditManyDebit
         else if d > 1 \<and> c > 1 then ManyCreditManyDebit
         else Invalid) =
        (if d = 0 \<or> c = 0 then Invalid
         else if d = 1 \<and> c = 1 then OneToOne
         else if c = 1 then OneCreditManyDebit
         else if d = 1 then ManyCreditOneDebit
         else ManyCreditManyDebit)"
    by auto
  then show ?thesis
    unfolding determine_voucher_type_def Let_def d_def c_def .
qed

section \<open>Evaluating the examples\<close>

lemma ascii_Nil: "ascii [] = []"
  by (simp add: ascii_def)

lemmas clean_defs = clean_amount_def example_env_def ascii_def strip_def isspace_def
  remove_char_def decimal_float_def is_digit_def digits_value_def

lemma clean_amount_examples:
  "clean_amount example_env [] = 0"
  "clean_amount example_env (ascii ''0'') = 0"
  "clean_amount example_env (ascii ''abc'') = 0"
  "clean_amount example_env (ascii ''50'') = 50"
  by (simp_all add: clean_defs)

lemmas process_defs = process_legs_def determine_voucher_type_def
  process_one_credit_one_debit_def process_one_credit_multi_debit_def
  process_multi_credit_one_debit_def process_multi_credit_multi_debit_def
  create_debit_entry_def make_credit_info_def make_check_def sum_entries_def total_amount_def
  fragments_total_def payment_label_def voucher_label_def extract_department_def
  extract_customer_def extract_person_def extract_bank_account_def Let_def

lemma split_two_by_two:
  "split_rows example_env two_by_two [] [] =
     ([\<lparr>leg_row = example_row ''1'' ''D1'' ''50'' [], leg_amount = 50\<rparr>,
       \<lparr>leg_row = example_row ''2'' ''D2'' ''50'' [], leg_amount = 50\<rparr>],
      [\<lparr>leg_row = example_row ''3'' ''C1'' [] ''50'', leg_amount = 50\<rparr>,
       \<lparr>leg_row = example_row ''4'' ''C2'' [] ''50'', leg_amount = 50\<rparr>])"
  by (simp add: two_by_two_def example_row_def [where e = "''1''"] example_row_def [where e = "''2''"]
      example_row_def [where e = "''3''"] example_row_def [where e = "''4''"]
      Let_def clean_amount_examples ascii_Nil)

section \<open>Splitting the rows\<close>

lemma split_rows_filter:
  "split_rows E rows ds cs =
     (ds @ map (\<lambda>r. \<lparr>leg_row = r, leg_amount = clean_amount E (debit_text r)\<rparr>)
             (filter (\<lambda>r. 0 < clean_amount E (debit_text r)) rows),
      cs @ map (\<lambda>r. \<lparr>leg_row = r, leg_amount = clean_amount E (credit_text r)\<rparr>)
             (filter (\<lambda>r. \<not> 0 < clean_amount E (debit_text r) \<and> 0 < clean_amount E (credit_text r))
                rows))"
  by (induction rows arbitrary: ds cs) (simp_all add: Let_def)

text \<open>
  Claim C10.  A row becomes a debit leg exactly when its cleaned debit amount is positive,
  and a credit leg exactly when it is no debit leg and its cleaned credit amount is
  positive; the legs keep the order of the rows.  A row whose two cleaned amounts are
  both at most zero becomes no leg: the two sides, and so the voucher type and every
  record, are what they are without the row.  An amount text that \<open>float()\<close> rejects is
  cleaned to zero, as is an empty one.
\<close>

theorem zero_amount_rows_excluded:
  "split_rows E rows [] [] =
     (map (\<lambda>r. \<lparr>leg_row = r, leg_amount = clean_amount E (debit_text r)\<rparr>)
        (filter (\<lambda>r. 0 < clean_amount E (debit_text r)) rows),
      map (\<lambda>r. \<lparr>leg_row = r, leg_amount = clean_amount E (credit_text r)\<rparr>)
        (filter (\<lambda>r. \<not> 0 < clean_amount E (debit_text r) \<and> 0 < clean_amount E (credit_text r))
           rows))
   \<and> (clean_amount E (debit_text z) \<le> 0 \<and> clean_amount E (credit_text z) \<le> 0 \<longrightarrow>
        split_rows E (xs @ z # ys) [] [] = split_rows E (xs @ ys) [] [] \<and>
        process_voucher_group E (xs @ z # ys) = process_voucher_group E (xs @ ys))
   \<and> (py_float E (strip (remove_char 34 (remove_char 44 s))) = None \<longrightarrow> clean_amount E s = 0)
   \<and> clean_amount E [] = 0"
proof -
  have "split_rows E (xs @ z # ys) [] [] = split_rows E (xs @ ys) [] []"
    if "clean_amount E (debit_text z) \<le> 0" "clean_amount E (credit_text z) \<le> 0"
    using that by (simp add: split_rows_filter)
  then show ?thesis
    by (simp add: split_rows_filter process_voucher_group_def clean_amount_def)
qed

theorem zero_amount_rows_excluded_witness:
  "clean_amount example_env (ascii ''abc'') = 0
   \<and> split_rows example_env two_by_two_with_blank [] [] = split_rows example_env two_by_two [] []
   \<and> process_voucher_group example_env two_by_two_with_blank
       = process_voucher_group example_env two_by_two"
proof -
  let ?z = "example_row ''5'' ''Z'' ''abc'' ''0''"
  have z: "clean_amount example_env (debit_text ?z) \<le> 0 \<and> clean_amount example_env (credit_text ?z) \<le> 0"
    by (simp add: example_row_def clean_amount_examples)
  have rows: "two_by_two_with_blank =
      [example_row ''1'' ''D1'' ''50'' [], example_row ''2'' ''D2'' ''50'' []] @ ?z #
      [example_row ''3'' ''C1'' [] ''50'', example_row ''4'' ''C2'' [] ''50'']"
    "two_by_two =
      [example_row ''1'' ''D1'' ''50'' [], example_row ''2'' ''D2'' ''50'' []] @
      [example_row ''3'' ''C1'' [] ''50'', example_row ''4'' ''C2'' [] ''50'']"
    by (simp_all add: two_by_two_with_blank_def two_by_two_def)
  show ?thesis
    using z zero_amount_rows_excluded [of example_env "[]" ?z
        "[example_row ''1'' ''D1'' ''50'' [], example_row ''2'' ''D2'' ''50'' []]"
        "[example_row ''3'' ''C1'' [] ''50'', example_row ''4'' ''C2'' [] ''50'']" "ascii ''abc''"]
    unfolding rows by (simp add: clean_amount_examples)
qed
section \<open>One credit leg, many debit legs\<close>















text \<open>With exact subtraction the loop is the loop of the exact definitions.\<close>

lemma allocate_debits_float_exact_ops:
  "fsub F = (-) \<Longrightarrow> allocate_debits_float F E ds remaining acc = allocate_debits E ds remaining acc"
  by (induction ds arbitrary: remaining acc) (simp_all add: Let_def split: sum.splits)



section \<open>Many credit legs, many debit legs\<close>

text \<open>
  Claim C1, at a voucher the claim covers: two debit rows of 50 and two credit rows of 50.
  The voucher is processed without an error, its totals agree (100 and 100), and the
  fragments of all its records sum to 50, not to the 100 of the credit amounts.
\<close>

theorem two_by_two_fragments_total:
  "\<not> isl (process_voucher_group example_env two_by_two)
   \<and> fragments_total (projr (process_voucher_group example_env two_by_two)) = 50
   \<and> total_amount (fst (split_rows example_env two_by_two [] [])) = 100
   \<and> total_amount (snd (split_rows example_env two_by_two [] [])) = 100"
  unfolding process_voucher_group_def split_two_by_two
  by (simp add: process_defs example_env_def example_row_def ascii_def)

text \<open>
  Claim C3, at the same voucher: the first credit leg consumes the first debit leg in
  full, the pool handed to the second credit leg is empty although the second debit leg
  was never visited, and the second record has no fragment.  The second debit leg is
  consumed by 0, not by its amount of 50.
\<close>

theorem two_by_two_second_debit_unconsumed:
  "map (\<lambda>r. map (\<lambda>e. (entry_account e, entry_amount e)) (debit_side r))
     (projr (process_voucher_group example_env two_by_two))
   = [[(ascii ''D1'', 50)], []]
   \<and> consume_pool example_env (fst (split_rows example_env two_by_two [] [])) 50 [] []
     = Inr ([\<lparr>entry_account = ascii ''D1'', entry_amount = 50, entry_summary = ascii ''pay'',
              entry_department = [], entry_customer = [], entry_person = [],
              entry_purpose = [20854, 20182], entry_cash_flow = [20854, 20182]\<rparr>], [])"
  unfolding process_voucher_group_def split_two_by_two
  by (simp add: process_defs example_env_def example_row_def ascii_def)

section \<open>Unbalanced vouchers\<close>


text \<open>
  The example of the specification, one credit leg of 300 and debit legs of 120, 80 and
  150: the one-credit case allocates 120, 80 and 100 and flags the record balanced.
\<close>

lemma unbalanced_one_credit_many_debit_example:
  "map (\<lambda>r. (map entry_amount (debit_side r), balanced (check r)))
     (projr (process_legs example_env
        [example_leg ''1'' ''D1'' 120, example_leg ''2'' ''D2'' 80, example_leg ''3'' ''D3'' 150]
        [example_leg ''4'' ''C1'' 300]))
   = [([120, 80, 100], True)]
   \<and> \<not> isl (process_legs example_env
        [example_leg ''1'' ''D1'' 120, example_leg ''2'' ''D2'' 80, example_leg ''3'' ''D3'' 150]
        [example_leg ''4'' ''C1'' 300])"
  by (simp add: process_defs example_env_def example_leg_def example_row_def)



section \<open>The parser: stepping the scanner\<close>

lemma find_colon_hit: "i < length t \<Longrightarrow> t ! i = COLON \<Longrightarrow> find_colon t i = (Some i, i + 1)"
  by (subst find_colon.simps) simp

lemma find_colon_miss: "i < length t \<Longrightarrow> t ! i \<noteq> COLON \<Longrightarrow> find_colon t i = find_colon t (i + 1)"
  by (subst find_colon.simps) simp

lemma find_colon_end: "\<not> i < length t \<Longrightarrow> find_colon t i = (None, i)"
  by (subst find_colon.simps) simp

lemma match_bracket_step:
  "i < length t \<Longrightarrow> 0 < c \<Longrightarrow>
   match_bracket t i c =
     match_bracket t (i + 1)
       (if t ! i = OPEN then c + 1 else if t ! i = CLOSE then c - 1 else c)"
  by (subst match_bracket.simps) simp

lemma match_bracket_stop: "\<not> (i < length t \<and> 0 < c) \<Longrightarrow> match_bracket t i c = (c, i)"
  by (subst match_bracket.simps) auto

lemma parse_loop_end: "\<not> i < length t \<Longrightarrow> parse_loop lower m t i items = items"
  by (subst parse_loop.simps) simp

lemma parse_loop_skip:
  "i < length t \<Longrightarrow> t ! i \<noteq> OPEN \<Longrightarrow> parse_loop lower m t i items = parse_loop lower m t (i + 1) items"
  by (subst parse_loop.simps) simp

lemma parse_loop_open:
  "i < length t \<Longrightarrow> t ! i = OPEN \<Longrightarrow>
   parse_loop lower m t i items =
     (case find_colon t (i + 1) of
        (None, _) \<Rightarrow> items
      | (Some colon_pos, i1) \<Rightarrow>
          (case match_bracket t i1 1 of
             (bracket_count, i2) \<Rightarrow>
               if bracket_count = 0 then
                 parse_loop lower m t i2
                   (items @
                      [make_item lower m (strip (slice (i + 1) colon_pos t))
                         (strip (slice (colon_pos + 1) (i2 - 1) t))])
               else items))"
  by (subst parse_loop.simps) simp

lemma walk_back_step:
  "0 \<le> i \<Longrightarrow> t ! nat i \<in> set special_chars \<Longrightarrow> walk_back t i = walk_back t (i - 1)"
  by (subst walk_back.simps) simp

lemma walk_back_stop:
  "\<not> (0 \<le> i \<and> t ! nat i \<in> set special_chars) \<Longrightarrow> walk_back t i = i"
  by (subst walk_back.simps) auto

lemmas scan_steps = find_colon_hit find_colon_miss find_colon_end match_bracket_step
  match_bracket_stop parse_loop_end parse_loop_skip parse_loop_open walk_back_step walk_back_stop
  OPEN_def CLOSE_def COLON_def


section \<open>The nested-bracket example\<close>

lemma strip_nested_example: "strip nested_example = nested_example"
  by (simp add: strip_def isspace_def nested_example_def)

lemma nested_example_scan:
  "find_colon nested_example (Suc 0) = (Some 6, 7)" "match_bracket nested_example 7 1 = (0, 26)"
  by (simp_all add: nested_example_def scan_steps)

lemma nested_example_slices:
  "strip (slice (Suc 0) 6 nested_example) = [25176, 22806, 27969, 27700, 21495]"
  "strip (slice 7 25 nested_example) = nested_example_value"
  by (simp_all add: nested_example_def nested_example_value_def slice_def strip_def isspace_def)

lemma standardize_external:
  "standardize_type lower [25176, 22806, 27969, 27700, 21495] = ascii ''external_flow_number''"
  by (simp add: standardize_type_def type_mapping_def)

lemma reverse_external:
  "reverse_mapping (ascii ''external_flow_number'') = Some [25176, 22806, 27969, 27700, 21495]"
  by (simp add: reverse_mapping_def type_mapping_def reverse_step_def ascii_def)

text \<open>
  Claim C6.  For every limit of at least 18 characters (the length of the value) and
  whatever \<open>str.lower\<close> does, parsing the nested-bracket example gives exactly one item:
  canonical type \<open>external_flow_number\<close>, and as value everything between the colon and
  the closing bracket that brings the depth back to zero, the inner brackets included.
  The colon is found at index 6; the depth counter, started at 1 behind it, is 0 when the
  scan stops at index 26, the end of the text.
\<close>

theorem nested_bracket_example:
  assumes "18 \<le> max_value_length"
  shows "parse_auxiliary_info lower max_value_length (Some nested_example) =
           [\<lparr>raw_type = [25176, 22806, 27969, 27700, 21495],
             item_type = ascii ''external_flow_number'',
             item_value = nested_example_value,
             display_type = [25176, 22806, 27969, 27700, 21495],
             value_warning = None\<rparr>]
         \<and> find_colon nested_example 1 = (Some 6, 7)
         \<and> match_bracket nested_example 7 1 = (0, 26)"
proof -
  have len: "length nested_example = 26" "nested_example ! 0 = OPEN" "nested_example \<noteq> []"
    by (simp_all add: nested_example_def OPEN_def)
  have v: "nested_example_value \<noteq> []" "length nested_example_value = 18"
    by (simp_all add: nested_example_value_def)
  have item: "make_item lower max_value_length [25176, 22806, 27969, 27700, 21495] nested_example_value
      = \<lparr>raw_type = [25176, 22806, 27969, 27700, 21495],
         item_type = ascii ''external_flow_number'',
         item_value = nested_example_value,
         display_type = [25176, 22806, 27969, 27700, 21495],
         value_warning = None\<rparr>"
    using assms v
    by (simp add: make_item_def standardize_external reverse_external
        validate_and_truncate_value_def)
  have "parse_loop lower max_value_length nested_example 0 []
      = parse_loop lower max_value_length nested_example 26
          [make_item lower max_value_length [25176, 22806, 27969, 27700, 21495] nested_example_value]"
    using len by (simp add: parse_loop_open nested_example_scan nested_example_slices)
  also have "\<dots> = [make_item lower max_value_length [25176, 22806, 27969, 27700, 21495] nested_example_value]"
    using len by (simp add: parse_loop_end)
  finally show ?thesis
    using len item
    by (simp add: parse_auxiliary_info_def parse_auxiliary_manual_def strip_nested_example
        nested_example_scan)
qed

theorem nested_bracket_example_witness:
  "(18 :: int) \<le> 10000
   \<and> map item_type (parse_auxiliary_info ascii_lower 10000 (Some nested_example))
       = [ascii ''external_flow_number'']
   \<and> map item_value (parse_auxiliary_info ascii_lower 10000 (Some nested_example))
       = [nested_example_value]"
proof -
  have h: "(18 :: int) \<le> 10000" by simp
  show ?thesis
    using h nested_bracket_example [OF h, of ascii_lower] by simp
qed

section \<open>Type normalization\<close>

lemma occurs_in_iff: "occurs_in a b \<longleftrightarrow> (\<exists>p s. b = p @ a @ s)"
proof (induction b)
  case Nil
  then show ?case by auto
next
  case (Cons c cs)
  have "take (length a) (c # cs) = a \<longleftrightarrow> (\<exists>s. c # cs = a @ s)"
    by (metis append_eq_conv_conj append_take_drop_id)
  moreover have "(\<exists>p s. c # cs = p @ a @ s) \<longleftrightarrow> (\<exists>s. c # cs = a @ s) \<or> (\<exists>p s. cs = p @ a @ s)"
  proof
    assume "\<exists>p s. c # cs = p @ a @ s"
    then obtain p s where ps: "c # cs = p @ a @ s" by blast
    show "(\<exists>s. c # cs = a @ s) \<or> (\<exists>p s. cs = p @ a @ s)"
    proof (cases p)
      case Nil
      with ps show ?thesis by auto
    next
      case (Cons x p')
      with ps have "cs = p' @ a @ s" by simp
      then show ?thesis by blast
    qed
  next
    assume "(\<exists>s. c # cs = a @ s) \<or> (\<exists>p s. cs = p @ a @ s)"
    then show "\<exists>p s. c # cs = p @ a @ s"
    proof
      assume "\<exists>s. c # cs = a @ s"
      then show ?thesis by (metis append_Nil)
    next
      assume "\<exists>p s. cs = p @ a @ s"
      then obtain p s where "cs = p @ a @ s" by blast
      then have "c # cs = (c # p) @ a @ s" by simp
      then show ?thesis by blast
    qed
  qed
  ultimately show ?case using Cons.IH by simp
qed

lemma distinct_type_mapping: "distinct (map fst type_mapping)"
  by (simp add: type_mapping_def)

lemma find_first:
  "find P xs = Some x \<Longrightarrow> \<exists>pre post. xs = pre @ x # post \<and> P x \<and> (\<forall>y \<in> set pre. \<not> P y)"
proof (induction xs)
  case Nil
  then show ?case by simp
next
  case (Cons a xs)
  show ?case
  proof (cases "P a")
    case True
    with Cons.prems have "a = x" by simp
    with True show ?thesis by (intro exI [of _ "[]"] exI [of _ xs]) simp
  next
    case False
    with Cons obtain pre post where "xs = pre @ x # post" "P x" "\<forall>y \<in> set pre. \<not> P y"
      by auto
    with False show ?thesis by (intro exI [of _ "a # pre"] exI [of _ post]) simp
  qed
qed

text \<open>
  Claim C9, amended.  A raw type that is an alias of the table gets the canonical type of
  that alias.  Otherwise, if some alias occurs in the raw type or the raw type occurs in
  some alias, it gets the canonical type of the first such alias in the order of the
  table.  Otherwise it gets the raw type lower-cased with every space replaced by an
  underscore.
\<close>

theorem standardize_type_chain:
  "((raw, v) \<in> set type_mapping \<longrightarrow> standardize_type lower raw = v)
   \<and> (raw \<notin> fst ` set type_mapping
        \<and> (\<exists>kv \<in> set type_mapping. (\<exists>p s. raw = p @ fst kv @ s) \<or> (\<exists>p s. fst kv = p @ raw @ s))
      \<longrightarrow> (\<exists>pre kv post. type_mapping = pre @ kv # post
             \<and> ((\<exists>p s. raw = p @ fst kv @ s) \<or> (\<exists>p s. fst kv = p @ raw @ s))
             \<and> (\<forall>kv' \<in> set pre. \<not> ((\<exists>p s. raw = p @ fst kv' @ s) \<or> (\<exists>p s. fst kv' = p @ raw @ s)))
             \<and> standardize_type lower raw = snd kv))
   \<and> (raw \<notin> fst ` set type_mapping
        \<and> \<not> (\<exists>kv \<in> set type_mapping. (\<exists>p s. raw = p @ fst kv @ s) \<or> (\<exists>p s. fst kv = p @ raw @ s))
      \<longrightarrow> standardize_type lower raw = map (\<lambda>c. if c = 32 then 95 else c) (lower raw))"
proof (intro conjI impI)
  assume "(raw, v) \<in> set type_mapping"
  then have "map_of type_mapping raw = Some v"
    using distinct_type_mapping by simp
  then show "standardize_type lower raw = v"
    by (simp add: standardize_type_def)
next
  let ?P = "\<lambda>kv. occurs_in (fst kv) raw \<or> occurs_in raw (fst kv)"
  assume a: "raw \<notin> fst ` set type_mapping
        \<and> (\<exists>kv \<in> set type_mapping. (\<exists>p s. raw = p @ fst kv @ s) \<or> (\<exists>p s. fst kv = p @ raw @ s))"
  then have none: "map_of type_mapping raw = None"
    by (simp add: map_of_eq_None_iff)
  from a obtain kv0 where "kv0 \<in> set type_mapping" "?P kv0"
    unfolding occurs_in_iff by blast
  then have "find ?P type_mapping \<noteq> None"
    unfolding find_None_iff by blast
  then obtain kv where kv: "find ?P type_mapping = Some kv"
    by blast
  from find_first [OF kv] obtain pre post where
    "type_mapping = pre @ kv # post" "?P kv" "\<forall>y \<in> set pre. \<not> ?P y"
    by blast
  moreover have "standardize_type lower raw = snd kv"
    using none kv by (simp add: standardize_type_def)
  ultimately show "\<exists>pre kv post. type_mapping = pre @ kv # post
             \<and> ((\<exists>p s. raw = p @ fst kv @ s) \<or> (\<exists>p s. fst kv = p @ raw @ s))
             \<and> (\<forall>kv' \<in> set pre. \<not> ((\<exists>p s. raw = p @ fst kv' @ s) \<or> (\<exists>p s. fst kv' = p @ raw @ s)))
             \<and> standardize_type lower raw = snd kv"
    unfolding occurs_in_iff by blast
next
  let ?P = "\<lambda>kv. occurs_in (fst kv) raw \<or> occurs_in raw (fst kv)"
  assume a: "raw \<notin> fst ` set type_mapping
        \<and> \<not> (\<exists>kv \<in> set type_mapping. (\<exists>p s. raw = p @ fst kv @ s) \<or> (\<exists>p s. fst kv = p @ raw @ s))"
  then have none: "map_of type_mapping raw = None"
    by (simp add: map_of_eq_None_iff)
  from a have "find ?P type_mapping = None"
    unfolding find_None_iff occurs_in_iff by blast
  with none show "standardize_type lower raw = map (\<lambda>c. if c = 32 then 95 else c) (lower raw)"
    by (simp add: standardize_type_def)
qed


text \<open>
  Claim C9 as it is stated fails at the raw type \<open>Cost Center\<close>: no alias matches it
  exactly or by containment, and the canonical type is \<open>cost_center\<close>, with an underscore
  for the space, not the lower-cased type with the space removed.
\<close>

theorem standardize_type_underscore:
  "standardize_type ascii_lower (ascii ''Cost Center'') = ascii ''cost_center''
   \<and> remove_char 32 (ascii_lower (ascii ''Cost Center'')) = ascii ''costcenter''
   \<and> ascii ''cost_center'' \<noteq> ascii ''costcenter''"
  by (simp add: standardize_type_def type_mapping_def ascii_def ascii_lower_def remove_char_def)

lemma fuzzy_evaluate:
  "(\<exists>kv \<in> set type_mapping. (\<exists>p s. raw = p @ fst kv @ s) \<or> (\<exists>p s. fst kv = p @ raw @ s))
   \<longleftrightarrow> list_ex (\<lambda>kv. occurs_in (fst kv) raw \<or> occurs_in raw (fst kv)) type_mapping"
  by (simp add: occurs_in_iff list_ex_iff)

theorem standardize_type_chain_witness:
  "standardize_type ascii_lower [25176, 22806, 27969, 27700, 21495] = ascii ''external_flow_number''
   \<and> standardize_type ascii_lower (ascii ''Cost Center'')
       = map (\<lambda>c. if c = 32 then 95 else c) (ascii_lower (ascii ''Cost Center''))
   \<and> (\<exists>pre kv post. type_mapping = pre @ kv # post
         \<and> ((\<exists>p s. [21333] = p @ fst kv @ s) \<or> (\<exists>p s. fst kv = p @ [21333] @ s))
         \<and> standardize_type ascii_lower [21333] = snd kv)"
proof -
  have exact: "([25176, 22806, 27969, 27700, 21495], ascii ''external_flow_number'') \<in> set type_mapping"
    by (simp add: type_mapping_def)
  have miss: "ascii ''Cost Center'' \<notin> fst ` set type_mapping
      \<and> \<not> (\<exists>kv \<in> set type_mapping. (\<exists>p s. ascii ''Cost Center'' = p @ fst kv @ s)
                \<or> (\<exists>p s. fst kv = p @ ascii ''Cost Center'' @ s))"
    unfolding fuzzy_evaluate by (simp add: type_mapping_def ascii_def)
  have fuzzy: "[21333] \<notin> fst ` set type_mapping
      \<and> (\<exists>kv \<in> set type_mapping. (\<exists>p s. [21333] = p @ fst kv @ s) \<or> (\<exists>p s. fst kv = p @ [21333] @ s))"
    unfolding fuzzy_evaluate by (simp add: type_mapping_def)
  have "standardize_type ascii_lower [25176, 22806, 27969, 27700, 21495]
          = ascii ''external_flow_number''"
    using standardize_type_chain [of "[25176, 22806, 27969, 27700, 21495]"
        "ascii ''external_flow_number''" ascii_lower, THEN conjunct1] exact
    by (rule mp)
  moreover have "standardize_type ascii_lower (ascii ''Cost Center'')
       = map (\<lambda>c. if c = 32 then 95 else c) (ascii_lower (ascii ''Cost Center''))"
    using standardize_type_chain [of "ascii ''Cost Center''" "[]" ascii_lower,
        THEN conjunct2, THEN conjunct2] miss
    by (rule mp)
  moreover have "\<exists>pre kv post. type_mapping = pre @ kv # post
         \<and> ((\<exists>p s. [21333] = p @ fst kv @ s) \<or> (\<exists>p s. fst kv = p @ [21333] @ s))
         \<and> (\<forall>kv' \<in> set pre. \<not> ((\<exists>p s. [21333] = p @ fst kv' @ s)
                \<or> (\<exists>p s. fst kv' = p @ [21333] @ s)))
         \<and> standardize_type ascii_lower [21333] = snd kv"
    using standardize_type_chain [of "[21333]" "[]" ascii_lower,
        THEN conjunct2, THEN conjunct1] fuzzy
    by (rule mp)
  ultimately show ?thesis
    by blast
qed

lemma fuzzy_first_match_example:
  "standardize_type ascii_lower [21333] = ascii ''business_partner''"
  by (simp add: standardize_type_def type_mapping_def)

section \<open>Malformed input\<close>










section \<open>Truncation\<close>











end
